theory Spec2Isabelle
  imports Main "HOL-Library.Char_ord" "HOL-Library.List_Lexorder"
begin

section \<open>Python values used by the library system\<close>

text \<open>
  A Python \<open>str\<close> is modelled as a \<open>string\<close> whose characters are the code points
  below 256. \<open>HOL-Library.Char_ord\<close> orders characters by code point and
  \<open>HOL-Library.List_Lexorder\<close> orders strings lexicographically with a proper prefix
  below its extensions, which is how Python compares \<open>str\<close> values.
  Python integers are \<open>int\<close>. Timestamps come from \<open>datetime.now()\<close>; every operation
  that reads the clock takes the reading as its argument \<open>ahora\<close>.
\<close>

datatype error = ValueError string | IndexError

text \<open>\<open>str.isspace\<close> on one character, for the code points below 256.\<close>

definition isspace :: "char \<Rightarrow> bool" where
  "isspace c = (c \<in> {CHR 0x09, CHR 0x0A, CHR 0x0B, CHR 0x0C, CHR 0x0D,
                      CHR 0x1C, CHR 0x1D, CHR 0x1E, CHR 0x1F, CHR 0x20,
                      CHR 0x85, CHR 0xA0})"

text \<open>\<open>s.strip()\<close>: leading and trailing whitespace removed.\<close>

definition strip :: "string \<Rightarrow> string" where
  "strip s = rev (dropWhile isspace (rev (dropWhile isspace s)))"

text \<open>The guard \<open>not s or s.strip() == ""\<close> of the constructors and of the containers.\<close>

definition en_blanco :: "string \<Rightarrow> bool" where
  "en_blanco s = (s = [] \<or> strip s = [])"

text \<open>
  \<open>xs[i]\<close> on a Python list: a negative index counts from the end, an index outside
  \<open>-len(xs) .. len(xs) - 1\<close> raises \<open>IndexError\<close>.
\<close>

definition py_index :: "'a list \<Rightarrow> int \<Rightarrow> error + 'a" where
  "py_index xs i =
     (if 0 \<le> i \<and> i < int (length xs) then Inr (xs ! nat i)
      else if i < 0 \<and> - int (length xs) \<le> i then Inr (xs ! nat (int (length xs) + i))
      else Inl IndexError)"

section \<open>models/libro.py\<close>

text \<open>
  The fields of \<open>Libro\<close> that the inventory, search and loan code reads or writes.
  \<open>peso\<close>, \<open>valor\<close>, \<open>genero\<close>, \<open>editorial\<close> and \<open>anio_publicacion\<close> are carried by the
  source object and touched by none of the operations below.
\<close>

record Libro =
  isbn :: string
  titulo :: string
  autor :: string
  stock :: int

definition incrementar_stock :: "Libro \<Rightarrow> Libro" where
  "incrementar_stock l = l\<lparr>stock := stock l + 1\<rparr>"

definition decrementar_stock :: "Libro \<Rightarrow> bool \<times> Libro" where
  "decrementar_stock l = (if stock l > 0 then (True, l\<lparr>stock := stock l - 1\<rparr>) else (False, l))"

definition esta_disponible :: "Libro \<Rightarrow> bool" where
  "esta_disponible l = (stock l > 0)"

section \<open>algoritmos\_ordenamiento/insercion.py\<close>

text \<open>
  The scan of \<open>insertar_ordenado\<close>: \<open>posicion\<close> starts at 0, becomes \<open>i\<close> at the first
  element whose key is greater than the new one (then the loop breaks) and \<open>i + 1\<close>
  after every other element. The argument \<open>clave\<close> is the attribute getter
  (\<open>getattr(libro, clave, "")\<close>).
\<close>

fun buscar_posicion :: "('a \<Rightarrow> string) \<Rightarrow> string \<Rightarrow> 'a list \<Rightarrow> nat \<Rightarrow> nat" where
  "buscar_posicion clave valor_nuevo [] i = i"
| "buscar_posicion clave valor_nuevo (libro # resto) i =
     (if clave libro > valor_nuevo then i
      else buscar_posicion clave valor_nuevo resto (i + 1))"

text \<open>\<open>lista.insert(posicion, x)\<close> for \<open>0 \<le> posicion \<le> len(lista)\<close>.\<close>

definition list_insert :: "'a list \<Rightarrow> nat \<Rightarrow> 'a \<Rightarrow> 'a list" where
  "list_insert xs posicion x = take posicion xs @ x # drop posicion xs"

definition insertar_ordenado :: "('a \<Rightarrow> string) \<Rightarrow> 'a list \<Rightarrow> 'a \<Rightarrow> 'a list" where
  "insertar_ordenado clave lista_ordenada nuevo_libro =
     list_insert lista_ordenada
       (buscar_posicion clave (clave nuevo_libro) lista_ordenada 0) nuevo_libro"

section \<open>algoritmos\_busqueda/busqueda\_binaria.py\<close>

text \<open>
  The \<open>while inicio <= fin\<close> loop of \<open>busqueda_binaria\<close>, on the already normalised
  searched ISBN. \<open>isbn_de\<close> reads the attribute \<open>isbn\<close> of a list element
  (\<open>getattr(libro_medio, 'isbn', '')\<close>); \<open>//\<close> is floor division, as \<open>div\<close> on \<open>int\<close>.
\<close>

function busqueda_binaria_bucle ::
  "('a \<Rightarrow> string) \<Rightarrow> 'a list \<Rightarrow> string \<Rightarrow> int \<Rightarrow> int \<Rightarrow> error + int" where
  "busqueda_binaria_bucle isbn_de lista_ordenada isbn_buscado inicio fin =
     (if inicio \<le> fin then
        (case py_index lista_ordenada ((inicio + fin) div 2) of
           Inl e \<Rightarrow> Inl e
         | Inr libro_medio \<Rightarrow>
             (if strip (isbn_de libro_medio) = isbn_buscado then Inr ((inicio + fin) div 2)
              else if strip (isbn_de libro_medio) < isbn_buscado
                then busqueda_binaria_bucle isbn_de lista_ordenada isbn_buscado
                       ((inicio + fin) div 2 + 1) fin
              else busqueda_binaria_bucle isbn_de lista_ordenada isbn_buscado
                     inicio ((inicio + fin) div 2 - 1)))
      else Inr (- 1))"
  by pat_completeness auto
termination
  by (relation "measure (\<lambda>(f, l, q, inicio, fin). nat (fin - inicio + 1))") auto

declare busqueda_binaria_bucle.simps [simp del]

text \<open>\<open>fin=None\<close> stands for the last index; the result \<open>- 1\<close> is the miss.\<close>

definition busqueda_binaria ::
  "('a \<Rightarrow> string) \<Rightarrow> 'a list \<Rightarrow> string \<Rightarrow> int \<Rightarrow> int option \<Rightarrow> error + int" where
  "busqueda_binaria isbn_de lista_ordenada isbn_buscado inicio fin =
     busqueda_binaria_bucle isbn_de lista_ordenada (strip isbn_buscado) inicio
       (case fin of None \<Rightarrow> int (length lista_ordenada) - 1 | Some f \<Rightarrow> f)"

definition buscar_libro_por_isbn ::
  "('a \<Rightarrow> string) \<Rightarrow> 'a list \<Rightarrow> string \<Rightarrow> error + 'a option" where
  "buscar_libro_por_isbn isbn_de lista_ordenada i =
     (case busqueda_binaria isbn_de lista_ordenada i 0 None of
        Inl e \<Rightarrow> Inl e
      | Inr posicion \<Rightarrow>
          (if posicion \<noteq> - 1
           then (case py_index lista_ordenada posicion of
                   Inl e \<Rightarrow> Inl e
                 | Inr l \<Rightarrow> Inr (Some l))
           else Inr None))"

section \<open>models/usuario.py\<close>

record Usuario =
  id_usuario :: string
  nombre :: string
  activo :: bool
  libros_prestados :: int
  max_prestamos :: int

definition puede_prestar :: "Usuario \<Rightarrow> bool" where
  "puede_prestar u = (activo u \<and> libros_prestados u < max_prestamos u)"

definition incrementar_prestamos :: "Usuario \<Rightarrow> bool \<times> Usuario" where
  "incrementar_prestamos u =
     (if puede_prestar u then (True, u\<lparr>libros_prestados := libros_prestados u + 1\<rparr>)
      else (False, u))"

definition decrementar_prestamos :: "Usuario \<Rightarrow> bool \<times> Usuario" where
  "decrementar_prestamos u =
     (if libros_prestados u > 0 then (True, u\<lparr>libros_prestados := libros_prestados u - 1\<rparr>)
      else (False, u))"

section \<open>estructuras\_datos/cola.py\<close>

record Reserva =
  r_id_usuario :: string
  r_isbn :: string
  r_fecha :: string

record Cola =
  elementos :: "Reserva list"
  capacidad_max :: "int option"

text \<open>\<open>Cola()\<close>: the constructor with its default argument.\<close>

definition Cola_nueva :: Cola where
  "Cola_nueva = \<lparr>elementos = [], capacidad_max = None\<rparr>"

definition Cola_esta_vacia :: "Cola \<Rightarrow> bool" where
  "Cola_esta_vacia c = (length (elementos c) = 0)"

definition Cola_esta_llena :: "Cola \<Rightarrow> bool" where
  "Cola_esta_llena c =
     (case capacidad_max c of None \<Rightarrow> False | Some m \<Rightarrow> int (length (elementos c)) \<ge> m)"

text \<open>
  A method that can raise returns the outcome (\<open>Inl\<close> the exception) together with the
  object after the call, so that what a failed call leaves behind is part of the model.
\<close>

definition encolar ::
  "string \<Rightarrow> Cola \<Rightarrow> string \<Rightarrow> string \<Rightarrow> string option \<Rightarrow> (error + bool) \<times> Cola" where
  "encolar ahora c uid i fecha =
     (if en_blanco uid then (Inl (ValueError ''User ID cannot be empty''), c)
      else if en_blanco i then (Inl (ValueError ''ISBN cannot be empty''), c)
      else if Cola_esta_llena c then (Inr False, c)
      else
        (Inr True,
         c\<lparr>elementos := elementos c @
              [\<lparr>r_id_usuario = strip uid, r_isbn = strip i,
                r_fecha = (case fecha of None \<Rightarrow> ahora | Some f \<Rightarrow> f)\<rparr>]\<rparr>))"

text \<open>\<open>lista.pop(0)\<close>: raises \<open>IndexError\<close> on the empty list.\<close>

definition py_pop0 :: "'a list \<Rightarrow> error + ('a \<times> 'a list)" where
  "py_pop0 xs = (case xs of [] \<Rightarrow> Inl IndexError | x # resto \<Rightarrow> Inr (x, resto))"

definition desencolar :: "Cola \<Rightarrow> (error + Reserva option) \<times> Cola" where
  "desencolar c =
     (if Cola_esta_vacia c then (Inr None, c)
      else (case py_pop0 (elementos c) of
              Inl e \<Rightarrow> (Inl e, c)
            | Inr (x, resto) \<Rightarrow> (Inr (Some x), c\<lparr>elementos := resto\<rparr>)))"

definition frente :: "Cola \<Rightarrow> error + Reserva option" where
  "frente c =
     (if Cola_esta_vacia c then Inr None
      else (case py_index (elementos c) 0 of Inl e \<Rightarrow> Inl e | Inr x \<Rightarrow> Inr (Some x)))"

text \<open>The scan \<open>for registro in self.elementos: if registro["isbn"] == isbn: return registro\<close>.\<close>

definition obtener_siguiente_usuario :: "Cola \<Rightarrow> string \<Rightarrow> Reserva option" where
  "obtener_siguiente_usuario c i = find (\<lambda>registro. r_isbn registro = i) (elementos c)"

definition contar_reservas_libro :: "Cola \<Rightarrow> string \<Rightarrow> int" where
  "contar_reservas_libro c i = int (length (filter (\<lambda>registro. r_isbn registro = i) (elementos c)))"

section \<open>estructuras\_datos/pila.py\<close>

record Prestamo =
  p_isbn :: string
  p_fecha :: string

record Pila =
  p_elementos :: "Prestamo list"
  p_capacidad_max :: "int option"

definition Pila_nueva :: Pila where
  "Pila_nueva = \<lparr>p_elementos = [], p_capacidad_max = None\<rparr>"

definition Pila_esta_vacia :: "Pila \<Rightarrow> bool" where
  "Pila_esta_vacia p = (length (p_elementos p) = 0)"

definition Pila_esta_llena :: "Pila \<Rightarrow> bool" where
  "Pila_esta_llena p =
     (case p_capacidad_max p of None \<Rightarrow> False | Some m \<Rightarrow> int (length (p_elementos p)) \<ge> m)"

definition apilar :: "string \<Rightarrow> Pila \<Rightarrow> string \<Rightarrow> string option \<Rightarrow> (error + bool) \<times> Pila" where
  "apilar ahora p i fecha =
     (if en_blanco i then (Inl (ValueError ''ISBN cannot be empty''), p)
      else if Pila_esta_llena p then (Inr False, p)
      else
        (Inr True,
         p\<lparr>p_elementos := p_elementos p @
              [\<lparr>p_isbn = strip i, p_fecha = (case fecha of None \<Rightarrow> ahora | Some f \<Rightarrow> f)\<rparr>]\<rparr>))"

text \<open>\<open>Pila.obtener_todos\<close> is \<open>return self.elementos.copy()\<close>.\<close>

definition Pila_obtener_todos :: "Pila \<Rightarrow> Prestamo list" where
  "Pila_obtener_todos p = p_elementos p"

section \<open>gestor/gestor\_inventario.py\<close>

text \<open>
  Both inventories hold references to the same \<open>Libro\<close> objects: \<open>libros\<close> is the object
  store, and the two lists hold addresses. A stock change made through one list is seen
  through the other. Saving to the JSON file and printing are left out.
\<close>

record GestorInventario =
  libros :: "nat \<Rightarrow> Libro"
  inventario_general :: "nat list"
  inventario_ordenado :: "nat list"

definition isbn_en :: "GestorInventario \<Rightarrow> nat \<Rightarrow> string" where
  "isbn_en g r = isbn (libros g r)"

definition buscar_por_isbn :: "GestorInventario \<Rightarrow> string \<Rightarrow> error + nat option" where
  "buscar_por_isbn g i = buscar_libro_por_isbn (isbn_en g) (inventario_ordenado g) i"

text \<open>
  \<open>agregar_libro\<close> runs in \<open>try ... except Exception: return False\<close>. A \<open>Libro\<close> object
  is always true in a condition (the class defines neither \<open>__bool__\<close> nor \<open>__len__\<close>).
\<close>

definition agregar_libro :: "GestorInventario \<Rightarrow> nat \<Rightarrow> bool \<times> GestorInventario" where
  "agregar_libro g libro =
     (case buscar_por_isbn g (isbn_en g libro) of
        Inl e \<Rightarrow> (False, g)
      | Inr (Some existente) \<Rightarrow> (False, g)
      | Inr None \<Rightarrow>
          (True,
           g\<lparr>inventario_general := inventario_general g @ [libro],
             inventario_ordenado := insertar_ordenado (isbn_en g) (inventario_ordenado g) libro\<rparr>))"

definition eliminar_libro :: "GestorInventario \<Rightarrow> string \<Rightarrow> bool \<times> GestorInventario" where
  "eliminar_libro g i =
     (True,
      g\<lparr>inventario_general := filter (\<lambda>libro. isbn_en g libro \<noteq> i) (inventario_general g),
        inventario_ordenado := filter (\<lambda>libro. isbn_en g libro \<noteq> i) (inventario_ordenado g)\<rparr>)"

text \<open>A sequence of calls on the inventory manager.\<close>

datatype operacion = Agregar nat | Eliminar string

fun ejecutar :: "GestorInventario \<Rightarrow> operacion list \<Rightarrow> GestorInventario" where
  "ejecutar g [] = g"
| "ejecutar g (Agregar libro # ops) = ejecutar (snd (agregar_libro g libro)) ops"
| "ejecutar g (Eliminar i # ops) = ejecutar (snd (eliminar_libro g i)) ops"

text \<open>
  What \<open>verificar_consistencia\<close> reports as \<open>mismos_libros\<close> (the two sets of ISBNs
  are equal) and \<open>ordenado_correcto\<close> (\<open>verificar_ordenamiento\<close>: no element is greater
  than its successor, that is, the list of keys is sorted).
\<close>

definition mismos_libros :: "GestorInventario \<Rightarrow> bool" where
  "mismos_libros g =
     (set (map (isbn_en g) (inventario_general g)) = set (map (isbn_en g) (inventario_ordenado g)))"

definition ordenado_correcto :: "GestorInventario \<Rightarrow> bool" where
  "ordenado_correcto g = sorted (map (isbn_en g) (inventario_ordenado g))"

section \<open>gestor/gestor\_prestamos.py\<close>

text \<open>
  The loan manager holds references to the inventory, user and reservation managers;
  \<open>Sistema\<close> is the state they share. \<open>usuarios\<close> is the dictionary of
  \<open>GestorUsuarios\<close>, \<open>cola_reservas\<close> the queue of \<open>GestorReservas\<close> and
  \<open>historial_prestamos\<close> the dictionary from user id to loan stack. A user object is
  reached only through its dictionary entry, so changing it is an update of that entry.
\<close>

record Sistema =
  gestor_inventario :: GestorInventario
  usuarios :: "string \<rightharpoonup> Usuario"
  cola_reservas :: Cola
  historial_prestamos :: "string \<rightharpoonup> Pila"

text \<open>\<open>libro.incrementar_stock()\<close> on the object at address \<open>r\<close>.\<close>

definition incrementar_stock_en :: "Sistema \<Rightarrow> nat \<Rightarrow> Sistema" where
  "incrementar_stock_en s r =
     s\<lparr>gestor_inventario := (gestor_inventario s)
          \<lparr>libros := (libros (gestor_inventario s))
                       (r := incrementar_stock (libros (gestor_inventario s) r))\<rparr>\<rparr>"

text \<open>
  \<open>procesar_prestamo_automatico\<close>: the whole body is in \<open>try\<close>, and any exception gives
  \<open>False\<close> with the changes made so far kept. The stock is not decremented on the
  successful path; it is incremented when the reserving user cannot borrow.
\<close>

definition procesar_prestamo_automatico ::
  "string \<Rightarrow> Sistema \<Rightarrow> string \<Rightarrow> string \<Rightarrow> bool \<times> Sistema" where
  "procesar_prestamo_automatico ahora s uid i =
     (case buscar_por_isbn (gestor_inventario s) i of
        Inl e \<Rightarrow> (False, s)
      | Inr libro \<Rightarrow>
          (case (usuarios s uid, libro) of
             (Some usuario, Some r) \<Rightarrow>
               (if \<not> puede_prestar usuario then (False, incrementar_stock_en s r)
                else
                  (let s1 = s\<lparr>usuarios := (usuarios s)(uid \<mapsto> snd (incrementar_prestamos usuario))\<rparr>;
                       pila = (case historial_prestamos s1 uid of
                                 None \<Rightarrow> Pila_nueva
                               | Some p \<Rightarrow> p)
                   in (case apilar ahora pila i (Some ahora) of
                         (Inl e, p') \<Rightarrow>
                           (False, s1\<lparr>historial_prestamos := (historial_prestamos s1)(uid \<mapsto> p')\<rparr>)
                       | (Inr apilado, p') \<Rightarrow>
                           (True, s1\<lparr>historial_prestamos := (historial_prestamos s1)(uid \<mapsto> p')\<rparr>))))
           | _ \<Rightarrow> (False, s)))"

text \<open>The result dictionary of \<open>verificar_y_asignar_reserva\<close>; an absent key is \<open>None\<close>.\<close>

record Verificacion =
  libro_encontrado :: bool
  posicion :: int
  tiene_reservas :: bool
  usuario_asignado :: "string option"
  reserva_procesada :: "Reserva option"
  prestamo_procesado :: "bool option"

text \<open>
  \<open>verificar_y_asignar_reserva(isbn, inventario_ordenado, cola_reservas, gestor_prestamos)\<close>
  of \<open>busqueda_binaria.py\<close>, called on the sorted inventory and the queue of the state;
  \<open>con_gestor\<close> tells whether a loan manager was passed. An exception of the search or of
  the dequeue is not caught here.
\<close>

definition verificar_y_asignar_reserva ::
  "string \<Rightarrow> Sistema \<Rightarrow> string \<Rightarrow> bool \<Rightarrow> (error + Verificacion) \<times> Sistema" where
  "verificar_y_asignar_reserva ahora s i con_gestor =
     (case busqueda_binaria (isbn_en (gestor_inventario s))
             (inventario_ordenado (gestor_inventario s)) i 0 None of
        Inl e \<Rightarrow> (Inl e, s)
      | Inr pos \<Rightarrow>
          (let resultado = \<lparr>libro_encontrado = (pos \<noteq> - 1), posicion = pos,
                             tiene_reservas = False, usuario_asignado = None,
                             reserva_procesada = None, prestamo_procesado = None\<rparr>
           in if pos = - 1 then (Inr resultado, s)
              else
                (case obtener_siguiente_usuario (cola_reservas s) i of
                   None \<Rightarrow> (Inr resultado, s)
                 | Some siguiente_reserva \<Rightarrow>
                     (case desencolar (cola_reservas s) of
                        (Inl e, c') \<Rightarrow> (Inl e, s\<lparr>cola_reservas := c'\<rparr>)
                      | (Inr None, c') \<Rightarrow>
                          (Inr (resultado\<lparr>tiene_reservas := True\<rparr>), s\<lparr>cola_reservas := c'\<rparr>)
                      | (Inr (Some reserva), c') \<Rightarrow>
                          (let resultado' = resultado
                                 \<lparr>tiene_reservas := True,
                                  usuario_asignado := Some (r_id_usuario reserva),
                                  reserva_procesada := Some reserva\<rparr>
                           in if con_gestor then
                                (case procesar_prestamo_automatico ahora
                                        (s\<lparr>cola_reservas := c'\<rparr>) (r_id_usuario reserva) i of
                                   (exito, s') \<Rightarrow>
                                     (Inr (resultado'\<lparr>prestamo_procesado := Some exito\<rparr>), s'))
                              else (Inr resultado', s\<lparr>cola_reservas := c'\<rparr>))))))"

text \<open>
  The outcome of \<open>devolver_libro\<close>: a failure (\<open>'exito': False\<close>, with the reason of its
  message) or the details of a processed return (\<open>'exito': True\<close>).
\<close>

datatype fallo =
    Usuario_no_encontrado
  | Libro_no_encontrado
  | Sin_historial
  | Libro_no_prestado
  | Error_procesando error

record Devolucion =
  stock_actual :: int
  prestamos_actuales_usuario :: "int option"
  reserva_asignada :: bool
  detalle_usuario_asignado :: "string option"

definition devolver_libro ::
  "string \<Rightarrow> Sistema \<Rightarrow> string \<Rightarrow> string \<Rightarrow> (fallo + Devolucion) \<times> Sistema" where
  "devolver_libro ahora s uid i =
     (case usuarios s uid of
        None \<Rightarrow> (Inl Usuario_no_encontrado, s)
      | Some usuario \<Rightarrow>
          (case buscar_por_isbn (gestor_inventario s) i of
             Inl e \<Rightarrow> (Inl (Error_procesando e), s)
           | Inr None \<Rightarrow> (Inl Libro_no_encontrado, s)
           | Inr (Some r) \<Rightarrow>
               (case historial_prestamos s uid of
                  None \<Rightarrow> (Inl Sin_historial, s)
                | Some historial_usuario \<Rightarrow>
                    (if Pila_esta_vacia historial_usuario then (Inl Sin_historial, s)
                     else if i \<notin> set (map p_isbn (Pila_obtener_todos historial_usuario))
                       then (Inl Libro_no_prestado, s)
                     else
                       (let s1 = (incrementar_stock_en s r)
                                   \<lparr>usuarios := (usuarios s)(uid \<mapsto> snd (decrementar_prestamos usuario))\<rparr>
                        in (case verificar_y_asignar_reserva ahora s1 i True of
                              (Inl e, s2) \<Rightarrow> (Inl (Error_procesando e), s2)
                            | (Inr v, s2) \<Rightarrow>
                                (Inr \<lparr>stock_actual = stock (libros (gestor_inventario s2) r),
                                      prestamos_actuales_usuario =
                                        map_option libros_prestados (usuarios s2 uid),
                                      reserva_asignada = tiene_reservas v,
                                      detalle_usuario_asignado =
                                        (if tiene_reservas v then usuario_asignado v else None)\<rparr>,
                                 s2)))))))"

text \<open>\<open>obtener_historial_usuario\<close>: \<open>pila.obtener_todos()[::-1]\<close>, or \<open>[]\<close> for an unknown user.\<close>

definition obtener_historial_usuario :: "Sistema \<Rightarrow> string \<Rightarrow> Prestamo list" where
  "obtener_historial_usuario s uid =
     (case historial_prestamos s uid of
        None \<Rightarrow> []
      | Some pila \<Rightarrow> rev (Pila_obtener_todos pila))"

section \<open>Example data\<close>

text \<open>A small catalogue and a small system state, used to run the operations.\<close>

definition libro_ej :: "string \<Rightarrow> int \<Rightarrow> Libro" where
  "libro_ej i n = \<lparr>isbn = i, titulo = ''Titulo'', autor = ''Autor'', stock = n\<rparr>"

definition lista_ej :: "Libro list" where
  "lista_ej = [libro_ej ''100'' 1, libro_ej ''300'' 0, libro_ej ''500'' 2]"

definition libros_ej :: "nat \<Rightarrow> Libro" where
  "libros_ej r =
     (if r = 0 then libro_ej ''ISBN-A'' 0
      else if r = 1 then libro_ej ''ISBN-B'' 0
      else libro_ej ''ISBN-C'' 4)"

definition inventario_ej :: GestorInventario where
  "inventario_ej =
     \<lparr>libros = libros_ej, inventario_general = [1, 0], inventario_ordenado = [0, 1]\<rparr>"

definition usuario_ej :: "string \<Rightarrow> int \<Rightarrow> Usuario" where
  "usuario_ej uid n =
     \<lparr>id_usuario = uid, nombre = ''Nombre'', activo = True,
      libros_prestados = n, max_prestamos = 3\<rparr>"

definition pila_ej :: "string \<Rightarrow> Pila" where
  "pila_ej i =
     \<lparr>p_elementos = [\<lparr>p_isbn = i, p_fecha = ''2025-12-01 09:00:00''\<rparr>],
      p_capacidad_max = None\<rparr>"

definition reserva_ej :: "string \<Rightarrow> string \<Rightarrow> Reserva" where
  "reserva_ej uid i = \<lparr>r_id_usuario = uid, r_isbn = i, r_fecha = ''2025-12-02 09:00:00''\<rparr>"

text \<open>
  Books \<open>ISBN-A\<close> and \<open>ISBN-B\<close> are out of stock; user \<open>U1\<close> has no loan, \<open>U2\<close> holds
  \<open>ISBN-A\<close> and \<open>U3\<close> holds \<open>ISBN-B\<close>; the reservation queue is the argument.
\<close>

definition sistema_ej :: "Reserva list \<Rightarrow> Sistema" where
  "sistema_ej reservas =
     \<lparr>gestor_inventario = inventario_ej,
      usuarios = [''U1'' \<mapsto> usuario_ej ''U1'' 0, ''U2'' \<mapsto> usuario_ej ''U2'' 1,
                  ''U3'' \<mapsto> usuario_ej ''U3'' 1],
      cola_reservas = \<lparr>elementos = reservas, capacidad_max = None\<rparr>,
      historial_prestamos = [''U2'' \<mapsto> pila_ej ''ISBN-A'', ''U3'' \<mapsto> pila_ej ''ISBN-B'']\<rparr>"

section \<open>Sorted insertion\<close>

lemma buscar_posicion_takeWhile:
  "buscar_posicion clave v xs i = i + length (takeWhile (\<lambda>x. clave x \<le> v) xs)"
  by (induction xs arbitrary: i) (simp_all add: not_less)

lemma insertar_ordenado_takeWhile:
  "insertar_ordenado clave xs b =
     takeWhile (\<lambda>x. clave x \<le> clave b) xs @ b # dropWhile (\<lambda>x. clave x \<le> clave b) xs"
  unfolding insertar_ordenado_def list_insert_def buscar_posicion_takeWhile
  by (simp add: takeWhile_eq_take [symmetric] dropWhile_eq_drop [symmetric])

lemma set_insertar_ordenado:
  "set (insertar_ordenado clave xs b) = insert b (set xs)"
proof -
  have "set xs = set (takeWhile (\<lambda>x. clave x \<le> clave b) xs) \<union> set (dropWhile (\<lambda>x. clave x \<le> clave b) xs)"
    by (metis set_append takeWhile_dropWhile_id)
  then show ?thesis by (simp add: insertar_ordenado_takeWhile)
qed

lemma length_insertar_ordenado:
  "length (insertar_ordenado clave xs b) = length xs + 1"
proof -
  have "length xs = length (takeWhile (\<lambda>x. clave x \<le> clave b) xs) + length (dropWhile (\<lambda>x. clave x \<le> clave b) xs)"
    by (metis length_append takeWhile_dropWhile_id)
  then show ?thesis by (simp add: insertar_ordenado_takeWhile)
qed

lemma sorted_insertar_ordenado:
  "sorted (map clave xs) \<Longrightarrow> sorted (map clave (insertar_ordenado clave xs b))"
proof (induction xs)
  case Nil
  show ?case by (simp add: insertar_ordenado_takeWhile)
next
  case (Cons x xs)
  from Cons.prems have sx: "sorted (map clave xs)" and le: "\<forall>y\<in>set xs. clave x \<le> clave y"
    by simp_all
  show ?case
  proof (cases "clave x \<le> clave b")
    case True
    have eq: "insertar_ordenado clave (x # xs) b = x # insertar_ordenado clave xs b"
      using True by (simp add: insertar_ordenado_takeWhile)
    have "\<forall>y\<in>set (insertar_ordenado clave xs b). clave x \<le> clave y"
      using le True by (simp add: set_insertar_ordenado)
    with Cons.IH [OF sx] show ?thesis unfolding eq by simp
  next
    case False
    then have lt: "clave b < clave x" by simp
    have eq: "insertar_ordenado clave (x # xs) b = b # x # xs"
      using False by (simp add: insertar_ordenado_takeWhile)
    have "clave b \<le> clave y" if "y \<in> set xs" for y
      using le that lt by (meson less_imp_le less_le_trans)
    with Cons.prems lt show ?thesis unfolding eq by simp
  qed
qed

text \<open>
  Claim C4. For a list sorted ascending by ISBN and any new book, \<open>insertar_ordenado\<close>
  puts the book immediately before the first element whose key is strictly greater than
  the new key: the elements in front of it are the longest prefix of keys not greater
  than the new one (so a book with an equal key goes after the existing ones), the rest
  follows unchanged. The result is again sorted ascending and one element longer.
\<close>

theorem insertar_ordenado_correcto:
  assumes "sorted (map isbn lista_ordenada)"
  shows "insertar_ordenado isbn lista_ordenada nuevo_libro =
           takeWhile (\<lambda>libro. \<not> isbn libro > isbn nuevo_libro) lista_ordenada
             @ nuevo_libro
             # dropWhile (\<lambda>libro. \<not> isbn libro > isbn nuevo_libro) lista_ordenada
         \<and> sorted (map isbn (insertar_ordenado isbn lista_ordenada nuevo_libro))
         \<and> length (insertar_ordenado isbn lista_ordenada nuevo_libro) = length lista_ordenada + 1"
proof (intro conjI)
  show "insertar_ordenado isbn lista_ordenada nuevo_libro =
           takeWhile (\<lambda>libro. \<not> isbn libro > isbn nuevo_libro) lista_ordenada
             @ nuevo_libro
             # dropWhile (\<lambda>libro. \<not> isbn libro > isbn nuevo_libro) lista_ordenada"
    by (simp only: not_less insertar_ordenado_takeWhile)
  show "sorted (map isbn (insertar_ordenado isbn lista_ordenada nuevo_libro))"
    using assms by (rule sorted_insertar_ordenado)
  show "length (insertar_ordenado isbn lista_ordenada nuevo_libro) = length lista_ordenada + 1"
    by (rule length_insertar_ordenado)
qed

theorem insertar_ordenado_correcto_witness:
  "sorted (map isbn [\<lparr>isbn = ''100'', titulo = ''A'', autor = ''X'', stock = 1\<rparr>,
                     \<lparr>isbn = ''300'', titulo = ''B'', autor = ''Y'', stock = 0\<rparr>,
                     \<lparr>isbn = ''500'', titulo = ''C'', autor = ''Z'', stock = 2\<rparr>])
   \<and> insertar_ordenado isbn
       [\<lparr>isbn = ''100'', titulo = ''A'', autor = ''X'', stock = 1\<rparr>,
        \<lparr>isbn = ''300'', titulo = ''B'', autor = ''Y'', stock = 0\<rparr>,
        \<lparr>isbn = ''500'', titulo = ''C'', autor = ''Z'', stock = 2\<rparr>]
       \<lparr>isbn = ''300'', titulo = ''D'', autor = ''W'', stock = 5\<rparr>
     = [\<lparr>isbn = ''100'', titulo = ''A'', autor = ''X'', stock = 1\<rparr>,
        \<lparr>isbn = ''300'', titulo = ''B'', autor = ''Y'', stock = 0\<rparr>,
        \<lparr>isbn = ''300'', titulo = ''D'', autor = ''W'', stock = 5\<rparr>,
        \<lparr>isbn = ''500'', titulo = ''C'', autor = ''Z'', stock = 2\<rparr>]"
proof -
  have h: "sorted (map isbn [\<lparr>isbn = ''100'', titulo = ''A'', autor = ''X'', stock = 1\<rparr>,
                     \<lparr>isbn = ''300'', titulo = ''B'', autor = ''Y'', stock = 0\<rparr>,
                     \<lparr>isbn = ''500'', titulo = ''C'', autor = ''Z'', stock = 2\<rparr>])"
    by simp
  show ?thesis
    using h insertar_ordenado_correcto [OF h, of "\<lparr>isbn = ''300'', titulo = ''D'', autor = ''W'', stock = 5\<rparr>"]
    by simp
qed

section \<open>Binary search\<close>

lemma py_index_in_range:
  "0 \<le> i \<Longrightarrow> i < int (length xs) \<Longrightarrow> py_index xs i = Inr (xs ! nat i)"
  by (simp add: py_index_def)

lemma sorted_key_mono:
  assumes "sorted (map k xs)" "i \<le> j" "j < length xs"
  shows "k (xs ! i) \<le> k (xs ! j)"
proof -
  have "map k xs ! i \<le> map k xs ! j"
    using assms by (intro sorted_nth_mono) simp_all
  then show ?thesis using assms by simp
qed

text \<open>
  Inside the index range of the list the loop never raises, and what it returns is the
  miss or a position of the searched key between the bounds.
\<close>

lemma bucle_sound:
  "0 \<le> inicio \<Longrightarrow> fin < int (length xs) \<Longrightarrow>
   \<exists>r. busqueda_binaria_bucle f xs q inicio fin = Inr r \<and>
       (r = - 1 \<or> inicio \<le> r \<and> r \<le> fin \<and> strip (f (xs ! nat r)) = q)"
proof (induction f xs q inicio fin rule: busqueda_binaria_bucle.induct)
  case (1 f xs q inicio fin)
  show ?case
  proof (cases "inicio \<le> fin")
    case False
    then show ?thesis by (subst busqueda_binaria_bucle.simps) simp
  next
    case True
    define medio where "medio = (inicio + fin) div 2"
    have m: "inicio \<le> medio" "medio \<le> fin" using True by (simp_all add: medio_def)
    have idx: "py_index xs ((inicio + fin) div 2) = Inr (xs ! nat medio)"
      unfolding medio_def [symmetric] using "1.prems" m by (intro py_index_in_range) simp_all
    consider (eq) "strip (f (xs ! nat medio)) = q"
      | (lt) "strip (f (xs ! nat medio)) \<noteq> q" "strip (f (xs ! nat medio)) < q"
      | (gt) "strip (f (xs ! nat medio)) \<noteq> q" "\<not> strip (f (xs ! nat medio)) < q"
      by blast
    then show ?thesis
    proof cases
      case eq
      have "busqueda_binaria_bucle f xs q inicio fin = Inr medio"
        using True idx eq by (subst busqueda_binaria_bucle.simps) (simp add: medio_def)
      then show ?thesis using m eq by simp
    next
      case lt
      have step: "busqueda_binaria_bucle f xs q inicio fin = busqueda_binaria_bucle f xs q (medio + 1) fin"
        using True idx lt by (subst busqueda_binaria_bucle.simps) (simp add: medio_def)
      have "\<exists>r. busqueda_binaria_bucle f xs q (medio + 1) fin = Inr r \<and>
         (r = - 1 \<or> medio + 1 \<le> r \<and> r \<le> fin \<and> strip (f (xs ! nat r)) = q)"
        unfolding medio_def
        using True idx lt "1.prems" m
        by (intro "1.IH"(1) [of "xs ! nat medio"]) (simp_all add: medio_def)
      then show ?thesis unfolding step using m by force
    next
      case gt
      have step: "busqueda_binaria_bucle f xs q inicio fin = busqueda_binaria_bucle f xs q inicio (medio - 1)"
        using True idx gt by (subst busqueda_binaria_bucle.simps) (simp add: medio_def)
      have "\<exists>r. busqueda_binaria_bucle f xs q inicio (medio - 1) = Inr r \<and>
         (r = - 1 \<or> inicio \<le> r \<and> r \<le> medio - 1 \<and> strip (f (xs ! nat r)) = q)"
        unfolding medio_def
        using True idx gt "1.prems" m
        by (intro "1.IH"(2) [of "xs ! nat medio"]) (simp_all add: medio_def)
      then show ?thesis unfolding step using m by force
    qed
  qed
qed

text \<open>On a list sorted by normalised ISBN, a key present between the bounds is not missed.\<close>

lemma bucle_complete:
  "sorted (map (\<lambda>l. strip (f l)) xs) \<Longrightarrow> 0 \<le> inicio \<Longrightarrow> fin < int (length xs) \<Longrightarrow>
   inicio \<le> j \<Longrightarrow> j \<le> fin \<Longrightarrow> strip (f (xs ! nat j)) = q \<Longrightarrow>
   busqueda_binaria_bucle f xs q inicio fin \<noteq> Inr (- 1)"
proof (induction f xs q inicio fin rule: busqueda_binaria_bucle.induct)
  case (1 f xs q inicio fin)
  from "1.prems" have True: "inicio \<le> fin" by simp
  define medio where "medio = (inicio + fin) div 2"
  have m: "inicio \<le> medio" "medio \<le> fin" using True by (simp_all add: medio_def)
  have idx: "py_index xs ((inicio + fin) div 2) = Inr (xs ! nat medio)"
    unfolding medio_def [symmetric] using "1.prems" m by (intro py_index_in_range) simp_all
  have mono: "strip (f (xs ! nat a)) \<le> strip (f (xs ! nat b))"
    if "0 \<le> a" "a \<le> b" "b < int (length xs)" for a b
    using sorted_key_mono [OF "1.prems"(1), of "nat a" "nat b"] that by simp
  consider (eq) "strip (f (xs ! nat medio)) = q"
    | (lt) "strip (f (xs ! nat medio)) \<noteq> q" "strip (f (xs ! nat medio)) < q"
    | (gt) "strip (f (xs ! nat medio)) \<noteq> q" "\<not> strip (f (xs ! nat medio)) < q"
    by blast
  then show ?case
  proof cases
    case eq
    have "busqueda_binaria_bucle f xs q inicio fin = Inr medio"
      using True idx eq by (subst busqueda_binaria_bucle.simps) (simp add: medio_def)
    then show ?thesis using m "1.prems" by simp
  next
    case lt
    have step: "busqueda_binaria_bucle f xs q inicio fin = busqueda_binaria_bucle f xs q (medio + 1) fin"
      using True idx lt by (subst busqueda_binaria_bucle.simps) (simp add: medio_def)
    have "\<not> j \<le> medio"
    proof
      assume "j \<le> medio"
      then have "strip (f (xs ! nat j)) \<le> strip (f (xs ! nat medio))"
        using "1.prems" m by (intro mono) simp_all
      with lt "1.prems" show False by simp
    qed
    then have j: "medio + 1 \<le> j" by simp
    have "busqueda_binaria_bucle f xs q (medio + 1) fin \<noteq> Inr (- 1)"
      unfolding medio_def
      using True idx lt "1.prems" m j
      by (intro "1.IH"(1) [of "xs ! nat medio"]) (simp_all add: medio_def)
    then show ?thesis unfolding step .
  next
    case gt
    have step: "busqueda_binaria_bucle f xs q inicio fin = busqueda_binaria_bucle f xs q inicio (medio - 1)"
      using True idx gt by (subst busqueda_binaria_bucle.simps) (simp add: medio_def)
    have "\<not> medio \<le> j"
    proof
      assume "medio \<le> j"
      then have "strip (f (xs ! nat medio)) \<le> strip (f (xs ! nat j))"
        using "1.prems" m by (intro mono) simp_all
      with gt "1.prems" show False by simp
    qed
    then have j: "j \<le> medio - 1" by simp
    have "busqueda_binaria_bucle f xs q inicio (medio - 1) \<noteq> Inr (- 1)"
      unfolding medio_def
      using True idx gt "1.prems" m j
      by (intro "1.IH"(2) [of "xs ! nat medio"]) (simp_all add: medio_def)
    then show ?thesis unfolding step .
  qed
qed

lemma busqueda_binaria_hit:
  assumes "sorted (map (\<lambda>l. strip (f l)) xs)"
    and "l \<in> set xs" and "strip (f l) = strip q"
  shows "\<exists>i < length xs. busqueda_binaria f xs q 0 None = Inr (int i) \<and> strip (f (xs ! i)) = strip q"
proof -
  from assms(2) obtain j where j: "j < length xs" "xs ! j = l"
    by (auto simp: in_set_conv_nth)
  obtain r where r: "busqueda_binaria_bucle f xs (strip q) 0 (int (length xs) - 1) = Inr r"
      "r = - 1 \<or> 0 \<le> r \<and> r \<le> int (length xs) - 1 \<and> strip (f (xs ! nat r)) = strip q"
    using bucle_sound [of 0 "int (length xs) - 1" xs f "strip q"] by auto
  have "busqueda_binaria_bucle f xs (strip q) 0 (int (length xs) - 1) \<noteq> Inr (- 1)"
    using assms(1,3) j by (intro bucle_complete [where j = "int j"]) simp_all
  with r have "0 \<le> r" "r \<le> int (length xs) - 1" "strip (f (xs ! nat r)) = strip q"
    by auto
  then show ?thesis using r(1)
    by (intro exI [of _ "nat r"]) (simp add: busqueda_binaria_def)
qed

lemma busqueda_binaria_miss:
  assumes "\<forall>l\<in>set xs. strip (f l) \<noteq> strip q"
  shows "busqueda_binaria f xs q 0 None = Inr (- 1)"
proof -
  obtain r where r: "busqueda_binaria_bucle f xs (strip q) 0 (int (length xs) - 1) = Inr r"
      "r = - 1 \<or> 0 \<le> r \<and> r \<le> int (length xs) - 1 \<and> strip (f (xs ! nat r)) = strip q"
    using bucle_sound [of 0 "int (length xs) - 1" xs f "strip q"] by auto
  have "r = - 1"
  proof (rule ccontr)
    assume "r \<noteq> - 1"
    with r(2) have "nat r < length xs" "strip (f (xs ! nat r)) = strip q" by auto
    with assms show False by (metis nth_mem)
  qed
  with r(1) show ?thesis by (simp add: busqueda_binaria_def)
qed

text \<open>
  Claim C3. For every list sorted ascending by trimmed ISBN and every searched ISBN:
  if some element's trimmed ISBN equals the trimmed searched ISBN, \<open>busqueda_binaria\<close>
  returns a position \<open>i\<close> of the list (\<open>0 \<le> i < len\<close>) whose element has that ISBN;
  if no element matches, it returns \<open>- 1\<close>, which is none of the positions
  \<open>0 .. len - 1\<close> a hit can return.
\<close>

theorem busqueda_binaria_correcta:
  assumes "sorted (map (\<lambda>libro. strip (isbn libro)) lista_ordenada)"
  shows "if (\<exists>libro \<in> set lista_ordenada. strip (isbn libro) = strip isbn_buscado)
         then (\<exists>i < length lista_ordenada.
                 busqueda_binaria isbn lista_ordenada isbn_buscado 0 None = Inr (int i)
                 \<and> strip (isbn (lista_ordenada ! i)) = strip isbn_buscado
                 \<and> int i \<noteq> - 1)
         else busqueda_binaria isbn lista_ordenada isbn_buscado 0 None = Inr (- 1)"
proof (cases "\<exists>libro \<in> set lista_ordenada. strip (isbn libro) = strip isbn_buscado")
  case True
  then obtain libro where "libro \<in> set lista_ordenada" "strip (isbn libro) = strip isbn_buscado"
    by blast
  from busqueda_binaria_hit [OF assms this]
  obtain i where "i < length lista_ordenada"
    "busqueda_binaria isbn lista_ordenada isbn_buscado 0 None = Inr (int i)"
    "strip (isbn (lista_ordenada ! i)) = strip isbn_buscado"
    by blast
  then have "\<exists>i < length lista_ordenada.
                 busqueda_binaria isbn lista_ordenada isbn_buscado 0 None = Inr (int i)
                 \<and> strip (isbn (lista_ordenada ! i)) = strip isbn_buscado
                 \<and> int i \<noteq> - 1"
    by (intro exI [of _ i]) simp
  with True show ?thesis by simp
next
  case False
  then have "\<forall>libro\<in>set lista_ordenada. strip (isbn libro) \<noteq> strip isbn_buscado" by blast
  from busqueda_binaria_miss [OF this] False show ?thesis by simp
qed

theorem busqueda_binaria_correcta_witness:
  "sorted (map (\<lambda>libro. strip (isbn libro)) lista_ej)
   \<and> (\<exists>i < length lista_ej.
         busqueda_binaria isbn lista_ej '' 300 '' 0 None = Inr (int i)
         \<and> strip (isbn (lista_ej ! i)) = strip '' 300 '' \<and> int i \<noteq> - 1)
   \<and> busqueda_binaria isbn lista_ej ''250'' 0 None = Inr (- 1)"
proof -
  have h: "sorted (map (\<lambda>libro. strip (isbn libro)) lista_ej)"
    by (simp add: lista_ej_def libro_ej_def strip_def isspace_def)
  have hit: "\<exists>libro \<in> set lista_ej. strip (isbn libro) = strip '' 300 ''"
    by (simp add: lista_ej_def libro_ej_def strip_def isspace_def)
  have miss: "\<not> (\<exists>libro \<in> set lista_ej. strip (isbn libro) = strip ''250'')"
    by (simp add: lista_ej_def libro_ej_def strip_def isspace_def)
  have a: "\<exists>i < length lista_ej.
         busqueda_binaria isbn lista_ej '' 300 '' 0 None = Inr (int i)
         \<and> strip (isbn (lista_ej ! i)) = strip '' 300 '' \<and> int i \<noteq> - 1"
    using busqueda_binaria_correcta [OF h, of "'' 300 ''"] hit by (simp only: if_True)
  have b: "busqueda_binaria isbn lista_ej ''250'' 0 None = Inr (- 1)"
    using busqueda_binaria_correcta [OF h, of "''250''"] miss by (simp only: if_False)
  from h a b show ?thesis by (intro conjI)
qed

section \<open>The reservation queue\<close>

lemma desencolar_cases:
  "desencolar c =
     (case elementos c of
        [] \<Rightarrow> (Inr None, c)
      | x # resto \<Rightarrow> (Inr (Some x), c\<lparr>elementos := resto\<rparr>))"
  by (simp add: desencolar_def Cola_esta_vacia_def py_pop0_def split: list.split)

lemma frente_cases:
  "frente c = (case elementos c of [] \<Rightarrow> Inr None | x # resto \<Rightarrow> Inr (Some x))"
  by (simp add: frente_def Cola_esta_vacia_def py_index_def split: list.split)

lemma encolar_valido:
  "\<not> en_blanco uid \<Longrightarrow> \<not> en_blanco i \<Longrightarrow> capacidad_max c = None \<Longrightarrow>
   encolar ahora c uid i fecha =
     (Inr True,
      c\<lparr>elementos := elementos c @
           [\<lparr>r_id_usuario = strip uid, r_isbn = strip i,
             r_fecha = (case fecha of None \<Rightarrow> ahora | Some f \<Rightarrow> f)\<rparr>]\<rparr>)"
  by (simp add: encolar_def Cola_esta_llena_def)

text \<open>
  Claim C7. On an empty queue without capacity bound, after \<open>encolar\<close> of three
  reservations \<open>a\<close>, \<open>b\<close>, \<open>c\<close> with non-blank user ids and ISBNs (whatever the ISBNs
  are), each \<open>encolar\<close> returns \<open>True\<close> and three successive \<open>desencolar\<close> calls return
  the record of \<open>a\<close>, then the record of \<open>b\<close>, then the record of \<open>c\<close>.
\<close>

theorem cola_fifo:
  assumes "elementos c0 = []" and "capacidad_max c0 = None"
    and "\<not> en_blanco ua" and "\<not> en_blanco ia"
    and "\<not> en_blanco ub" and "\<not> en_blanco ib"
    and "\<not> en_blanco uc" and "\<not> en_blanco ic"
  shows "\<exists>c1 c2 c3 c4 c5 c6.
           encolar ta c0 ua ia fa = (Inr True, c1)
         \<and> encolar tb c1 ub ib fb = (Inr True, c2)
         \<and> encolar tc c2 uc ic fc = (Inr True, c3)
         \<and> desencolar c3 =
             (Inr (Some \<lparr>r_id_usuario = strip ua, r_isbn = strip ia,
                          r_fecha = (case fa of None \<Rightarrow> ta | Some f \<Rightarrow> f)\<rparr>), c4)
         \<and> desencolar c4 =
             (Inr (Some \<lparr>r_id_usuario = strip ub, r_isbn = strip ib,
                          r_fecha = (case fb of None \<Rightarrow> tb | Some f \<Rightarrow> f)\<rparr>), c5)
         \<and> desencolar c5 =
             (Inr (Some \<lparr>r_id_usuario = strip uc, r_isbn = strip ic,
                          r_fecha = (case fc of None \<Rightarrow> tc | Some f \<Rightarrow> f)\<rparr>), c6)"
  using assms by (simp add: encolar_valido desencolar_cases)

theorem cola_fifo_witness:
  "elementos Cola_nueva = [] \<and> capacidad_max Cola_nueva = None
   \<and> \<not> en_blanco ''U1'' \<and> \<not> en_blanco ''ISBN-B''
   \<and> \<not> en_blanco ''U2'' \<and> \<not> en_blanco ''ISBN-A''
   \<and> \<not> en_blanco ''U3'' \<and> \<not> en_blanco ''ISBN-B''
   \<and> (\<exists>c1 c2 c3 c4 c5 c6.
           encolar ''t1'' Cola_nueva ''U1'' ''ISBN-B'' None = (Inr True, c1)
         \<and> encolar ''t2'' c1 ''U2'' ''ISBN-A'' None = (Inr True, c2)
         \<and> encolar ''t3'' c2 ''U3'' ''ISBN-B'' None = (Inr True, c3)
         \<and> desencolar c3 =
             (Inr (Some \<lparr>r_id_usuario = ''U1'', r_isbn = ''ISBN-B'', r_fecha = ''t1''\<rparr>), c4)
         \<and> desencolar c4 =
             (Inr (Some \<lparr>r_id_usuario = ''U2'', r_isbn = ''ISBN-A'', r_fecha = ''t2''\<rparr>), c5)
         \<and> desencolar c5 =
             (Inr (Some \<lparr>r_id_usuario = ''U3'', r_isbn = ''ISBN-B'', r_fecha = ''t3''\<rparr>), c6))"
proof -
  have h: "elementos Cola_nueva = []" "capacidad_max Cola_nueva = None"
    by (simp_all add: Cola_nueva_def)
  have v: "\<not> en_blanco ''U1''" "\<not> en_blanco ''U2''" "\<not> en_blanco ''U3''"
    "\<not> en_blanco ''ISBN-A''" "\<not> en_blanco ''ISBN-B''"
    by (simp_all add: en_blanco_def strip_def isspace_def)
  have s: "strip ''U1'' = ''U1''" "strip ''U2'' = ''U2''" "strip ''U3'' = ''U3''"
    "strip ''ISBN-A'' = ''ISBN-A''" "strip ''ISBN-B'' = ''ISBN-B''"
    by (simp_all add: strip_def isspace_def)
  show ?thesis
    using h v
      cola_fifo [OF h v(1) v(5) v(2) v(4) v(3) v(5), of "''t1''" None "''t2''" None "''t3''" None]
    by (simp only: s option.case simp_thms)
qed

text \<open>
  Claim C8. On an empty queue \<open>desencolar\<close> and \<open>frente\<close> return \<open>None\<close> and do not
  raise, and the queue stays as it is; on every queue, \<open>encolar\<close> with an empty or
  whitespace-only user id or ISBN raises \<open>ValueError\<close> and leaves the queue unchanged.
\<close>

theorem cola_vacia_y_validacion:
  "(Cola_esta_vacia c \<longrightarrow> desencolar c = (Inr None, c) \<and> frente c = Inr None)
   \<and> (en_blanco uid \<or> en_blanco i \<longrightarrow>
        (\<exists>mensaje. encolar ahora c uid i fecha = (Inl (ValueError mensaje), c)))"
  by (simp add: desencolar_def frente_def encolar_def)

theorem cola_vacia_y_validacion_witness:
  "Cola_esta_vacia Cola_nueva
   \<and> desencolar Cola_nueva = (Inr None, Cola_nueva) \<and> frente Cola_nueva = Inr None
   \<and> en_blanco ''  ''
   \<and> (\<exists>mensaje. encolar ''t1'' Cola_nueva ''U1'' ''  '' None
                   = (Inl (ValueError mensaje), Cola_nueva))"
proof -
  have e: "Cola_esta_vacia Cola_nueva"
    by (simp add: Cola_esta_vacia_def Cola_nueva_def)
  have b: "en_blanco ''  ''"
    by (simp add: en_blanco_def strip_def isspace_def)
  from cola_vacia_y_validacion [of Cola_nueva "''U1''" "''  ''" "''t1''" None] e b
  show ?thesis by blast
qed

section \<open>The loan history stack\<close>

lemma apilar_valido:
  "\<not> en_blanco i \<Longrightarrow> p_capacidad_max p = None \<Longrightarrow>
   apilar ahora p i fecha =
     (Inr True,
      p\<lparr>p_elementos := p_elementos p @
           [\<lparr>p_isbn = strip i, p_fecha = (case fecha of None \<Rightarrow> ahora | Some f \<Rightarrow> f)\<rparr>]\<rparr>)"
  by (simp add: apilar_def Pila_esta_llena_def)

text \<open>
  The history of a user as \<open>GestorPrestamos.obtener_historial_usuario\<close> returns it is
  the reverse of the storage order of the stack.
\<close>

lemma obtener_historial_usuario_rev:
  "historial_prestamos s uid = Some pila \<Longrightarrow>
   obtener_historial_usuario s uid = rev (p_elementos pila)"
  by (simp add: obtener_historial_usuario_def Pila_obtener_todos_def)

text \<open>
  Claim C9. The stack operation that returns the whole history, \<open>Pila.obtener_todos\<close>,
  is documented as most recent first. After \<open>apilar("ISBN-A")\<close> and then
  \<open>apilar("ISBN-B")\<close> it returns the record of \<open>ISBN-A\<close> first: the storage order,
  oldest first, not its reverse.
\<close>

theorem pila_obtener_todos_orden_de_almacenamiento:
  "Pila_obtener_todos
     (snd (apilar ''t2'' (snd (apilar ''t1'' Pila_nueva ''ISBN-A'' None)) ''ISBN-B'' None))
   = [\<lparr>p_isbn = ''ISBN-A'', p_fecha = ''t1''\<rparr>, \<lparr>p_isbn = ''ISBN-B'', p_fecha = ''t2''\<rparr>]"
  by (simp add: Pila_obtener_todos_def apilar_def Pila_esta_llena_def Pila_nueva_def
      en_blanco_def strip_def isspace_def)

section \<open>The two inventories\<close>

lemma isbn_en_listas [simp]:
  "isbn_en (g\<lparr>inventario_general := xs\<rparr>) = isbn_en g"
  "isbn_en (g\<lparr>inventario_ordenado := ys\<rparr>) = isbn_en g"
  by (simp_all add: isbn_en_def fun_eq_iff)

text \<open>The search of the manager never raises, and it finds a key that is present.\<close>

lemma buscar_por_isbn_hit:
  assumes "sorted (map (\<lambda>r. strip (isbn_en g r)) (inventario_ordenado g))"
    and "r \<in> set (inventario_ordenado g)" and "strip (isbn_en g r) = strip i"
  shows "\<exists>n < length (inventario_ordenado g).
           busqueda_binaria (isbn_en g) (inventario_ordenado g) i 0 None = Inr (int n)
           \<and> buscar_por_isbn g i = Inr (Some (inventario_ordenado g ! n))
           \<and> strip (isbn_en g (inventario_ordenado g ! n)) = strip i"
proof -
  from busqueda_binaria_hit [OF assms]
  obtain n where n: "n < length (inventario_ordenado g)"
    "busqueda_binaria (isbn_en g) (inventario_ordenado g) i 0 None = Inr (int n)"
    "strip (isbn_en g (inventario_ordenado g ! n)) = strip i"
    by blast
  have "buscar_por_isbn g i = Inr (Some (inventario_ordenado g ! n))"
    using n(1,2) by (simp add: buscar_por_isbn_def buscar_libro_por_isbn_def py_index_in_range)
  with n show ?thesis by blast
qed

lemma agregar_libro_cases:
  "agregar_libro g libro = (False, g)
   \<or> agregar_libro g libro =
       (True,
        g\<lparr>inventario_general := inventario_general g @ [libro],
          inventario_ordenado := insertar_ordenado (isbn_en g) (inventario_ordenado g) libro\<rparr>)"
  by (simp add: agregar_libro_def split: sum.split option.split)

lemma agregar_libro_consistente:
  assumes "mismos_libros g" and "ordenado_correcto g"
  shows "mismos_libros (snd (agregar_libro g libro)) \<and> ordenado_correcto (snd (agregar_libro g libro))"
proof -
  let ?g = "g\<lparr>inventario_general := inventario_general g @ [libro],
          inventario_ordenado := insertar_ordenado (isbn_en g) (inventario_ordenado g) libro\<rparr>"
  have "mismos_libros ?g"
    using assms(1) by (simp add: mismos_libros_def set_insertar_ordenado)
  moreover have "ordenado_correcto ?g"
    using assms(2) by (simp add: ordenado_correcto_def sorted_insertar_ordenado)
  ultimately show ?thesis
    using assms agregar_libro_cases [of g libro] by auto
qed

lemma eliminar_libro_consistente:
  assumes "mismos_libros g" and "ordenado_correcto g"
  shows "mismos_libros (snd (eliminar_libro g i)) \<and> ordenado_correcto (snd (eliminar_libro g i))"
proof -
  have f: "isbn_en g ` {libro \<in> set xs. isbn_en g libro \<noteq> i} = isbn_en g ` set xs - {i}" for xs
    by auto
  have "mismos_libros (snd (eliminar_libro g i))"
    using assms(1) by (simp add: mismos_libros_def eliminar_libro_def f)
  moreover have "ordenado_correcto (snd (eliminar_libro g i))"
    using assms(2) by (simp add: ordenado_correcto_def eliminar_libro_def sorted_filter)
  ultimately show ?thesis ..
qed

text \<open>
  Claim C5. Starting from consistent inventories (same set of ISBNs in both lists, the
  sorted one non-decreasing by ISBN), after any sequence of \<open>agregar_libro\<close> and
  \<open>eliminar_libro\<close> calls the set of ISBNs of \<open>inventario_general\<close> equals the set of
  ISBNs of \<open>inventario_ordenado\<close>, and \<open>inventario_ordenado\<close> is non-decreasing by ISBN.
\<close>

theorem inventarios_consistentes:
  assumes "mismos_libros g" and "ordenado_correcto g"
  shows "mismos_libros (ejecutar g ops) \<and> ordenado_correcto (ejecutar g ops)"
  using assms
proof (induction ops arbitrary: g)
  case Nil
  then show ?case by simp
next
  case (Cons op ops)
  show ?case
  proof (cases op)
    case (Agregar libro)
    from agregar_libro_consistente [OF Cons.prems, of libro]
    have "mismos_libros (ejecutar (snd (agregar_libro g libro)) ops)
          \<and> ordenado_correcto (ejecutar (snd (agregar_libro g libro)) ops)"
      by (intro Cons.IH) simp_all
    with Agregar show ?thesis by simp
  next
    case (Eliminar i)
    from eliminar_libro_consistente [OF Cons.prems, of i]
    have "mismos_libros (ejecutar (snd (eliminar_libro g i)) ops)
          \<and> ordenado_correcto (ejecutar (snd (eliminar_libro g i)) ops)"
      by (intro Cons.IH) simp_all
    with Eliminar show ?thesis by simp
  qed
qed

theorem inventarios_consistentes_witness:
  "mismos_libros inventario_ej \<and> ordenado_correcto inventario_ej
   \<and> mismos_libros (ejecutar inventario_ej [Agregar 2, Agregar 0, Eliminar ''ISBN-B''])
   \<and> ordenado_correcto (ejecutar inventario_ej [Agregar 2, Agregar 0, Eliminar ''ISBN-B''])"
proof -
  have h1: "mismos_libros inventario_ej"
    by (simp add: mismos_libros_def inventario_ej_def isbn_en_def libros_ej_def libro_ej_def
        insert_commute)
  have h2: "ordenado_correcto inventario_ej"
    by (simp add: ordenado_correcto_def inventario_ej_def isbn_en_def libros_ej_def libro_ej_def)
  from h1 h2 inventarios_consistentes [OF h1 h2, of "[Agregar 2, Agregar 0, Eliminar ''ISBN-B'']"]
  show ?thesis by blast
qed

text \<open>
  Claim C10. For a book whose ISBN is already present in the sorted inventory,
  \<open>agregar_libro\<close> returns \<open>False\<close> and leaves \<open>inventario_general\<close> and
  \<open>inventario_ordenado\<close> unchanged, so the add operation adds no duplicate ISBN. The
  sorted inventory is sorted by the ISBN as the search normalises it; \<open>Libro.__init__\<close>
  stores the ISBN already stripped, so for its objects this is the order by ISBN.
\<close>

theorem agregar_libro_duplicado:
  assumes "sorted (map (\<lambda>r. strip (isbn_en g r)) (inventario_ordenado g))"
    and "isbn_en g libro \<in> set (map (isbn_en g) (inventario_ordenado g))"
  shows "agregar_libro g libro = (False, g)"
proof -
  from assms(2) obtain r where r: "r \<in> set (inventario_ordenado g)"
    "strip (isbn_en g r) = strip (isbn_en g libro)"
    by auto
  from buscar_por_isbn_hit [OF assms(1) r]
  obtain n where "buscar_por_isbn g (isbn_en g libro) = Inr (Some (inventario_ordenado g ! n))"
    by blast
  then show ?thesis by (simp add: agregar_libro_def)
qed

theorem agregar_libro_duplicado_witness:
  "sorted (map (\<lambda>r. strip (isbn_en inventario_ej r)) (inventario_ordenado inventario_ej))
   \<and> isbn_en inventario_ej 0 \<in> set (map (isbn_en inventario_ej) (inventario_ordenado inventario_ej))
   \<and> agregar_libro inventario_ej 0 = (False, inventario_ej)"
proof -
  have h1: "sorted (map (\<lambda>r. strip (isbn_en inventario_ej r)) (inventario_ordenado inventario_ej))"
    by (simp add: inventario_ej_def isbn_en_def libros_ej_def libro_ej_def strip_def isspace_def)
  have h2: "isbn_en inventario_ej 0 \<in> set (map (isbn_en inventario_ej) (inventario_ordenado inventario_ej))"
    by (simp add: inventario_ej_def isbn_en_def libros_ej_def libro_ej_def)
  from h1 h2 agregar_libro_duplicado [OF h1 h2] show ?thesis by blast
qed



section \<open>Returning a book\<close>

lemma isbn_en_incrementar_stock_en [simp]:
  "isbn_en (gestor_inventario (incrementar_stock_en s r)) = isbn_en (gestor_inventario s)"
  by (simp add: isbn_en_def incrementar_stock_en_def incrementar_stock_def fun_eq_iff)

lemma inventario_ordenado_incrementar_stock_en [simp]:
  "inventario_ordenado (gestor_inventario (incrementar_stock_en s r))
     = inventario_ordenado (gestor_inventario s)"
  by (simp add: incrementar_stock_en_def)

lemma libros_incrementar_stock_en:
  "libros (gestor_inventario (incrementar_stock_en s r))
     = (libros (gestor_inventario s))
         (r := (libros (gestor_inventario s) r)\<lparr>stock := stock (libros (gestor_inventario s) r) + 1\<rparr>)"
  by (simp add: incrementar_stock_en_def incrementar_stock_def)

lemma obtener_siguiente_usuario_None:
  "obtener_siguiente_usuario c i = None \<longleftrightarrow> (\<forall>registro \<in> set (elementos c). r_isbn registro \<noteq> i)"
  by (auto simp: obtener_siguiente_usuario_def find_None_iff)

text \<open>
  A successful automatic loan leaves every book as it was: the stock that the return
  incremented is not decremented again.
\<close>

lemma procesar_prestamo_automatico_stock:
  "procesar_prestamo_automatico ahora s uid i = (True, s') \<Longrightarrow>
   libros (gestor_inventario s') = libros (gestor_inventario s)"
  by (auto simp: procesar_prestamo_automatico_def Let_def
      split: sum.splits option.splits if_splits prod.splits)

text \<open>The user that the protocol assigns is the user of the head of the whole queue.\<close>

lemma asignado_es_cabeza_de_cola:
  "verificar_y_asignar_reserva ahora s i con_gestor = (Inr v, s') \<Longrightarrow> tiene_reservas v \<Longrightarrow>
   usuario_asignado v =
     (case elementos (cola_reservas s) of [] \<Rightarrow> None | x # resto \<Rightarrow> Some (r_id_usuario x))"
  by (auto simp: verificar_y_asignar_reserva_def Let_def desencolar_cases
      split: sum.splits option.splits if_splits prod.splits list.splits)

text \<open>
  Claim C6. For a valid return (the user exists, the returned ISBN is in the user's loan
  history, and the book is in the sorted inventory) with no record for the returned ISBN
  in the reservation queue, \<open>devolver_libro\<close> succeeds, the stock of the book found is
  one more than before, no other book changes, and the reservation queue is unchanged.
\<close>

theorem devolucion_sin_reservas:
  assumes "usuarios s uid = Some usuario"
    and "historial_prestamos s uid = Some historial"
    and "i \<in> set (map p_isbn (Pila_obtener_todos historial))"
    and "sorted (map (\<lambda>r. strip (isbn_en (gestor_inventario s) r))
                  (inventario_ordenado (gestor_inventario s)))"
    and "\<exists>r \<in> set (inventario_ordenado (gestor_inventario s)).
           strip (isbn_en (gestor_inventario s) r) = strip i"
    and "\<forall>registro \<in> set (elementos (cola_reservas s)). r_isbn registro \<noteq> i"
  shows "\<exists>r \<in> set (inventario_ordenado (gestor_inventario s)). \<exists>d s'.
           strip (isbn_en (gestor_inventario s) r) = strip i
         \<and> devolver_libro ahora s uid i = (Inr d, s')
         \<and> libros (gestor_inventario s') =
             (libros (gestor_inventario s))
               (r := (libros (gestor_inventario s) r)
                       \<lparr>stock := stock (libros (gestor_inventario s) r) + 1\<rparr>)
         \<and> stock_actual d = stock (libros (gestor_inventario s) r) + 1
         \<and> reserva_asignada d = False
         \<and> cola_reservas s' = cola_reservas s"
proof -
  let ?g = "gestor_inventario s"
  from assms(5) obtain r0 where r0: "r0 \<in> set (inventario_ordenado ?g)"
    "strip (isbn_en ?g r0) = strip i"
    by blast
  from buscar_por_isbn_hit [OF assms(4) r0]
  obtain n where n: "n < length (inventario_ordenado ?g)"
    "busqueda_binaria (isbn_en ?g) (inventario_ordenado ?g) i 0 None = Inr (int n)"
    "buscar_por_isbn ?g i = Inr (Some (inventario_ordenado ?g ! n))"
    "strip (isbn_en ?g (inventario_ordenado ?g ! n)) = strip i"
    by blast
  define r where "r = inventario_ordenado ?g ! n"
  define s1 where
    "s1 = (incrementar_stock_en s r)\<lparr>usuarios := (usuarios s)(uid \<mapsto> snd (decrementar_prestamos usuario))\<rparr>"
  have rin: "r \<in> set (inventario_ordenado ?g)"
    using n(1) by (simp add: r_def)
  have hist: "\<not> Pila_esta_vacia historial"
    "\<not> i \<notin> set (map p_isbn (Pila_obtener_todos historial))"
    using assms(3) by (auto simp: Pila_esta_vacia_def Pila_obtener_todos_def)
  have busq: "busqueda_binaria (isbn_en (gestor_inventario s1))
                (inventario_ordenado (gestor_inventario s1)) i 0 None = Inr (int n)"
    using n(2) by (simp add: s1_def)
  have cola: "obtener_siguiente_usuario (cola_reservas s1) i = None"
    using assms(6) by (simp add: obtener_siguiente_usuario_None s1_def incrementar_stock_en_def)
  have verif: "verificar_y_asignar_reserva ahora s1 i True =
      (Inr \<lparr>libro_encontrado = True, posicion = int n, tiene_reservas = False,
            usuario_asignado = None, reserva_procesada = None, prestamo_procesado = None\<rparr>, s1)"
    by (simp add: verificar_y_asignar_reserva_def busq cola)
  have dev: "devolver_libro ahora s uid i =
      (Inr \<lparr>stock_actual = stock (libros (gestor_inventario s1) r),
            prestamos_actuales_usuario = map_option libros_prestados (usuarios s1 uid),
            reserva_asignada = False, detalle_usuario_asignado = None\<rparr>, s1)"
    using assms(1,2) n(3) hist verif
    by (simp add: devolver_libro_def r_def [symmetric] s1_def [symmetric])
  have libros1: "libros (gestor_inventario s1) =
      (libros ?g)(r := (libros ?g r)\<lparr>stock := stock (libros ?g r) + 1\<rparr>)"
    by (simp add: s1_def libros_incrementar_stock_en)
  have cola1: "cola_reservas s1 = cola_reservas s"
    by (simp add: s1_def incrementar_stock_en_def)
  have "strip (isbn_en ?g r) = strip i
         \<and> devolver_libro ahora s uid i =
             (Inr \<lparr>stock_actual = stock (libros (gestor_inventario s1) r),
                   prestamos_actuales_usuario = map_option libros_prestados (usuarios s1 uid),
                   reserva_asignada = False, detalle_usuario_asignado = None\<rparr>, s1)
         \<and> libros (gestor_inventario s1) =
             (libros ?g)(r := (libros ?g r)\<lparr>stock := stock (libros ?g r) + 1\<rparr>)
         \<and> stock_actual \<lparr>stock_actual = stock (libros (gestor_inventario s1) r),
                   prestamos_actuales_usuario = map_option libros_prestados (usuarios s1 uid),
                   reserva_asignada = False, detalle_usuario_asignado = None\<rparr>
              = stock (libros ?g r) + 1
         \<and> reserva_asignada \<lparr>stock_actual = stock (libros (gestor_inventario s1) r),
                   prestamos_actuales_usuario = map_option libros_prestados (usuarios s1 uid),
                   reserva_asignada = False, detalle_usuario_asignado = None\<rparr> = False
         \<and> cola_reservas s1 = cola_reservas s"
    using n(4) dev libros1 cola1 by (simp add: r_def)
  then show ?thesis using rin by blast
qed

theorem devolucion_sin_reservas_witness:
  "usuarios (sistema_ej [reserva_ej ''U1'' ''ISBN-B'']) ''U2'' = Some (usuario_ej ''U2'' 1)
   \<and> historial_prestamos (sistema_ej [reserva_ej ''U1'' ''ISBN-B'']) ''U2'' = Some (pila_ej ''ISBN-A'')
   \<and> ''ISBN-A'' \<in> set (map p_isbn (Pila_obtener_todos (pila_ej ''ISBN-A'')))
   \<and> sorted (map (\<lambda>r. strip (isbn_en (gestor_inventario (sistema_ej [reserva_ej ''U1'' ''ISBN-B''])) r))
               (inventario_ordenado (gestor_inventario (sistema_ej [reserva_ej ''U1'' ''ISBN-B'']))))
   \<and> (\<exists>r \<in> set (inventario_ordenado (gestor_inventario (sistema_ej [reserva_ej ''U1'' ''ISBN-B'']))).
         strip (isbn_en (gestor_inventario (sistema_ej [reserva_ej ''U1'' ''ISBN-B''])) r) = strip ''ISBN-A'')
   \<and> ''ISBN-A'' \<notin> set (map r_isbn (elementos (cola_reservas (sistema_ej [reserva_ej ''U1'' ''ISBN-B'']))))
   \<and> (\<exists>r \<in> set (inventario_ordenado (gestor_inventario (sistema_ej [reserva_ej ''U1'' ''ISBN-B'']))).
       \<exists>d s'.
           strip (isbn_en (gestor_inventario (sistema_ej [reserva_ej ''U1'' ''ISBN-B''])) r) = strip ''ISBN-A''
         \<and> devolver_libro ''t'' (sistema_ej [reserva_ej ''U1'' ''ISBN-B'']) ''U2'' ''ISBN-A'' = (Inr d, s')
         \<and> libros (gestor_inventario s') =
             (libros (gestor_inventario (sistema_ej [reserva_ej ''U1'' ''ISBN-B''])))
               (r := (libros (gestor_inventario (sistema_ej [reserva_ej ''U1'' ''ISBN-B''])) r)
                       \<lparr>stock := stock (libros (gestor_inventario (sistema_ej [reserva_ej ''U1'' ''ISBN-B''])) r) + 1\<rparr>)
         \<and> stock_actual d = stock (libros (gestor_inventario (sistema_ej [reserva_ej ''U1'' ''ISBN-B''])) r) + 1
         \<and> reserva_asignada d = False
         \<and> cola_reservas s' = cola_reservas (sistema_ej [reserva_ej ''U1'' ''ISBN-B'']))"
proof -
  let ?s = "sistema_ej [reserva_ej ''U1'' ''ISBN-B'']"
  have h1: "usuarios ?s ''U2'' = Some (usuario_ej ''U2'' 1)"
    by (simp add: sistema_ej_def)
  have h2: "historial_prestamos ?s ''U2'' = Some (pila_ej ''ISBN-A'')"
    by (simp add: sistema_ej_def)
  have h3: "''ISBN-A'' \<in> set (map p_isbn (Pila_obtener_todos (pila_ej ''ISBN-A'')))"
    by (simp add: Pila_obtener_todos_def pila_ej_def)
  have h4: "sorted (map (\<lambda>r. strip (isbn_en (gestor_inventario ?s) r))
               (inventario_ordenado (gestor_inventario ?s)))"
    by (simp add: sistema_ej_def inventario_ej_def isbn_en_def libros_ej_def libro_ej_def
        strip_def isspace_def)
  have h5: "\<exists>r \<in> set (inventario_ordenado (gestor_inventario ?s)).
         strip (isbn_en (gestor_inventario ?s) r) = strip ''ISBN-A''"
    by (simp add: sistema_ej_def inventario_ej_def isbn_en_def libros_ej_def libro_ej_def
        strip_def isspace_def)
  have h6: "\<forall>registro \<in> set (elementos (cola_reservas ?s)). r_isbn registro \<noteq> ''ISBN-A''"
    by (simp add: sistema_ej_def reserva_ej_def)
  have h6': "''ISBN-A'' \<notin> set (map r_isbn (elementos (cola_reservas ?s)))"
    by (simp add: sistema_ej_def reserva_ej_def)
  from devolucion_sin_reservas [OF h1 h2 h3 h4 h5 h6, of "''t''"] h1 h2 h3 h4 h5 h6'
  show ?thesis by (intro conjI)
qed

lemma buscar_por_isbn_incrementar_stock_en [simp]:
  "buscar_por_isbn (gestor_inventario (incrementar_stock_en s r)) i
     = buscar_por_isbn (gestor_inventario s) i"
  by (simp add: buscar_por_isbn_def)

text \<open>
  What the return does when the only reservation is for the returned book, made by
  another user who can borrow and whose history stack has room: the reservation is
  consumed, the reserving user gets the loan and the history entry, and the stock of the
  book ends one above its starting value.
\<close>

lemma devolver_libro_transfiere_copia:
  assumes u2: "usuarios s u2 = Some usr2"
    and u1: "usuarios s u1 = Some usr1" "u1 \<noteq> u2" "puede_prestar usr1"
    and h2: "historial_prestamos s u2 = Some historial"
      "i \<in> set (map p_isbn (Pila_obtener_todos historial))"
    and h1: "case historial_prestamos s u1 of None \<Rightarrow> True | Some p \<Rightarrow> \<not> Pila_esta_llena p"
    and i: "\<not> en_blanco i"
    and ord: "sorted (map (\<lambda>r. strip (isbn_en (gestor_inventario s) r))
                  (inventario_ordenado (gestor_inventario s)))"
      "\<exists>r \<in> set (inventario_ordenado (gestor_inventario s)).
           strip (isbn_en (gestor_inventario s) r) = strip i"
    and cola: "elementos (cola_reservas s) = [\<lparr>r_id_usuario = u1, r_isbn = i, r_fecha = f\<rparr>]"
  shows "\<exists>r \<in> set (inventario_ordenado (gestor_inventario s)). \<exists>d s'.
           strip (isbn_en (gestor_inventario s) r) = strip i
         \<and> devolver_libro ahora s u2 i = (Inr d, s')
         \<and> stock (libros (gestor_inventario s') r) = stock (libros (gestor_inventario s) r) + 1
         \<and> stock_actual d = stock (libros (gestor_inventario s) r) + 1
         \<and> detalle_usuario_asignado d = Some u1
         \<and> contar_reservas_libro (cola_reservas s') i = 0
         \<and> map_option libros_prestados (usuarios s' u1) = Some (libros_prestados usr1 + 1)
         \<and> obtener_historial_usuario s' u1
             = \<lparr>p_isbn = strip i, p_fecha = ahora\<rparr> # obtener_historial_usuario s u1"
proof -
  let ?g = "gestor_inventario s"
  from ord(2) obtain r0 where r0: "r0 \<in> set (inventario_ordenado ?g)"
    "strip (isbn_en ?g r0) = strip i"
    by blast
  from buscar_por_isbn_hit [OF ord(1) r0]
  obtain n where n: "n < length (inventario_ordenado ?g)"
    "busqueda_binaria (isbn_en ?g) (inventario_ordenado ?g) i 0 None = Inr (int n)"
    "buscar_por_isbn ?g i = Inr (Some (inventario_ordenado ?g ! n))"
    "strip (isbn_en ?g (inventario_ordenado ?g ! n)) = strip i"
    by blast
  define r where "r = inventario_ordenado ?g ! n"
  define s1 where
    "s1 = (incrementar_stock_en s r)\<lparr>usuarios := (usuarios s)(u2 \<mapsto> snd (decrementar_prestamos usr2))\<rparr>"
  define s2 where "s2 = s1\<lparr>cola_reservas := (cola_reservas s1)\<lparr>elementos := []\<rparr>\<rparr>"
  define pila where "pila = (case historial_prestamos s u1 of None \<Rightarrow> Pila_nueva | Some p \<Rightarrow> p)"
  define s3 where
    "s3 = s2\<lparr>usuarios := (usuarios s2)(u1 \<mapsto> usr1\<lparr>libros_prestados := libros_prestados usr1 + 1\<rparr>),
            historial_prestamos := (historial_prestamos s2)
              (u1 \<mapsto> pila\<lparr>p_elementos := p_elementos pila @ [\<lparr>p_isbn = strip i, p_fecha = ahora\<rparr>]\<rparr>)\<rparr>"
  have rin: "r \<in> set (inventario_ordenado ?g)"
    using n(1) by (simp add: r_def)
  have hist: "\<not> Pila_esta_vacia historial"
    "\<not> i \<notin> set (map p_isbn (Pila_obtener_todos historial))"
    using h2(2) by (auto simp: Pila_esta_vacia_def Pila_obtener_todos_def)
  have busq: "busqueda_binaria (isbn_en (gestor_inventario s1))
                (inventario_ordenado (gestor_inventario s1)) i 0 None = Inr (int n)"
    using n(2) by (simp add: s1_def)
  have cola1: "elementos (cola_reservas s1) = [\<lparr>r_id_usuario = u1, r_isbn = i, r_fecha = f\<rparr>]"
    using cola by (simp add: s1_def incrementar_stock_en_def)
  have sig: "obtener_siguiente_usuario (cola_reservas s1) i
               = Some \<lparr>r_id_usuario = u1, r_isbn = i, r_fecha = f\<rparr>"
    by (simp add: obtener_siguiente_usuario_def cola1)
  have des: "desencolar (cola_reservas s1)
               = (Inr (Some \<lparr>r_id_usuario = u1, r_isbn = i, r_fecha = f\<rparr>),
                  (cola_reservas s1)\<lparr>elementos := []\<rparr>)"
    by (simp add: desencolar_cases cola1)
  have pila_llena: "\<not> Pila_esta_llena pila"
    using h1 by (simp add: pila_def Pila_esta_llena_def Pila_nueva_def split: option.splits)
  have apil: "apilar ahora pila i (Some ahora)
                = (Inr True, pila\<lparr>p_elementos := p_elementos pila @ [\<lparr>p_isbn = strip i, p_fecha = ahora\<rparr>]\<rparr>)"
    using i pila_llena by (simp add: apilar_def)
  have us2: "usuarios s2 u1 = Some usr1"
    using u1(1,2) by (simp add: s2_def s1_def)
  have hs2: "historial_prestamos s2 u1 = historial_prestamos s u1"
    by (simp add: s2_def s1_def incrementar_stock_en_def)
  have bs2: "buscar_por_isbn (gestor_inventario s2) i = Inr (Some r)"
    using n(3) by (simp add: s2_def s1_def r_def)
  have auto_loan: "procesar_prestamo_automatico ahora s2 u1 i = (True, s3)"
    using us2 bs2 u1(3) apil
    by (simp add: procesar_prestamo_automatico_def hs2 pila_def [symmetric]
        incrementar_prestamos_def s3_def)
  have verif: "verificar_y_asignar_reserva ahora s1 i True =
      (Inr \<lparr>libro_encontrado = True, posicion = int n, tiene_reservas = True,
            usuario_asignado = Some u1,
            reserva_procesada = Some \<lparr>r_id_usuario = u1, r_isbn = i, r_fecha = f\<rparr>,
            prestamo_procesado = Some True\<rparr>, s3)"
    using auto_loan
    by (simp add: verificar_y_asignar_reserva_def busq sig des s2_def [symmetric])
  have dev: "devolver_libro ahora s u2 i =
      (Inr \<lparr>stock_actual = stock (libros (gestor_inventario s3) r),
            prestamos_actuales_usuario = map_option libros_prestados (usuarios s3 u2),
            reserva_asignada = True, detalle_usuario_asignado = Some u1\<rparr>, s3)"
    using u2 h2(1) n(3) hist verif
    by (simp add: devolver_libro_def r_def [symmetric] s1_def [symmetric])
  have libros3: "stock (libros (gestor_inventario s3) r) = stock (libros ?g r) + 1"
    by (simp add: s3_def s2_def s1_def libros_incrementar_stock_en)
  have cola3: "contar_reservas_libro (cola_reservas s3) i = 0"
    by (simp add: s3_def s2_def contar_reservas_libro_def)
  have us3: "map_option libros_prestados (usuarios s3 u1) = Some (libros_prestados usr1 + 1)"
    by (simp add: s3_def)
  have hs3: "obtener_historial_usuario s3 u1
             = \<lparr>p_isbn = strip i, p_fecha = ahora\<rparr> # obtener_historial_usuario s u1"
    by (simp add: s3_def obtener_historial_usuario_def Pila_obtener_todos_def pila_def
        Pila_nueva_def split: option.splits)
  have "strip (isbn_en ?g r) = strip i
         \<and> devolver_libro ahora s u2 i =
             (Inr \<lparr>stock_actual = stock (libros (gestor_inventario s3) r),
                   prestamos_actuales_usuario = map_option libros_prestados (usuarios s3 u2),
                   reserva_asignada = True, detalle_usuario_asignado = Some u1\<rparr>, s3)
         \<and> stock (libros (gestor_inventario s3) r) = stock (libros ?g r) + 1
         \<and> stock_actual \<lparr>stock_actual = stock (libros (gestor_inventario s3) r),
                   prestamos_actuales_usuario = map_option libros_prestados (usuarios s3 u2),
                   reserva_asignada = True, detalle_usuario_asignado = Some u1\<rparr>
              = stock (libros ?g r) + 1
         \<and> detalle_usuario_asignado \<lparr>stock_actual = stock (libros (gestor_inventario s3) r),
                   prestamos_actuales_usuario = map_option libros_prestados (usuarios s3 u2),
                   reserva_asignada = True, detalle_usuario_asignado = Some u1\<rparr> = Some u1
         \<and> contar_reservas_libro (cola_reservas s3) i = 0
         \<and> map_option libros_prestados (usuarios s3 u1) = Some (libros_prestados usr1 + 1)
         \<and> obtener_historial_usuario s3 u1
             = \<lparr>p_isbn = strip i, p_fecha = ahora\<rparr> # obtener_historial_usuario s u1"
    using n(4) dev libros3 cola3 us3 hs3 by (simp add: r_def)
  then show ?thesis using rin by blast
qed

lemmas ej_defs = sistema_ej_def inventario_ej_def libros_ej_def libro_ej_def usuario_ej_def
  pila_ej_def reserva_ej_def

lemmas op_defs = devolver_libro_def verificar_y_asignar_reserva_def
  procesar_prestamo_automatico_def buscar_por_isbn_def buscar_libro_por_isbn_def
  busqueda_binaria_def busqueda_binaria_bucle.simps py_index_def isbn_en_def
  incrementar_stock_en_def incrementar_stock_def decrementar_prestamos_def
  incrementar_prestamos_def puede_prestar_def apilar_def Pila_esta_llena_def
  Pila_esta_vacia_def Pila_obtener_todos_def Pila_nueva_def en_blanco_def strip_def
  isspace_def obtener_siguiente_usuario_def desencolar_def Cola_esta_vacia_def py_pop0_def
  contar_reservas_libro_def obtener_historial_usuario_def

text \<open>
  Claim C1. Book \<open>ISBN-A\<close> is in the sorted inventory with stock 0, user \<open>U2\<close> holds a
  loan of it, and the only record of the reservation queue is \<open>(U1, ISBN-A)\<close> with
  \<open>U1\<close> active and under \<open>max_prestamos\<close>. \<open>devolver_libro(U2, ISBN-A)\<close> succeeds, the
  queue ends with no record for \<open>ISBN-A\<close>, the loan count of \<open>U1\<close> goes from 0 to 1 and
  the history of \<open>U1\<close> gets an entry for \<open>ISBN-A\<close>; but the stock of the book ends at 1
  and is reported as 1, not at its starting value 0: the return increments it and the
  automatic loan does not decrement it.
\<close>

theorem devolucion_con_reserva_stock:
  "stock (libros (gestor_inventario (sistema_ej [reserva_ej ''U1'' ''ISBN-A''])) 0) = 0
   \<and> fst (devolver_libro ''t'' (sistema_ej [reserva_ej ''U1'' ''ISBN-A'']) ''U2'' ''ISBN-A'')
       = Inr \<lparr>stock_actual = 1, prestamos_actuales_usuario = Some 0,
              reserva_asignada = True, detalle_usuario_asignado = Some ''U1''\<rparr>
   \<and> stock (libros (gestor_inventario
        (snd (devolver_libro ''t'' (sistema_ej [reserva_ej ''U1'' ''ISBN-A'']) ''U2'' ''ISBN-A''))) 0) = 1
   \<and> contar_reservas_libro (cola_reservas
        (snd (devolver_libro ''t'' (sistema_ej [reserva_ej ''U1'' ''ISBN-A'']) ''U2'' ''ISBN-A''))) ''ISBN-A'' = 0
   \<and> map_option libros_prestados (usuarios
        (snd (devolver_libro ''t'' (sistema_ej [reserva_ej ''U1'' ''ISBN-A'']) ''U2'' ''ISBN-A'')) ''U1'') = Some 1
   \<and> obtener_historial_usuario
        (snd (devolver_libro ''t'' (sistema_ej [reserva_ej ''U1'' ''ISBN-A'']) ''U2'' ''ISBN-A'')) ''U1''
       = [\<lparr>p_isbn = ''ISBN-A'', p_fecha = ''t''\<rparr>]"
  by (simp add: ej_defs op_defs)

text \<open>
  Claim C2. With the queue \<open>[(U1, ISBN-A), (U2, ISBN-B)]\<close> and \<open>ISBN-B\<close> returned,
  \<open>obtener_siguiente_usuario("ISBN-B")\<close> returns the record of \<open>U2\<close>, the earliest
  reservation for \<open>ISBN-B\<close>, but the following \<open>desencolar()\<close> removes the record of
  \<open>U1\<close> for \<open>ISBN-A\<close>: \<open>usuario_asignado\<close> is \<open>U1\<close>, the reservation of \<open>U2\<close> stays in
  the queue, and \<open>U1\<close> gets a loan of \<open>ISBN-B\<close> in the history.
\<close>

theorem verificar_y_asignar_reserva_cabeza_global:
  "obtener_siguiente_usuario
       (cola_reservas (sistema_ej [reserva_ej ''U1'' ''ISBN-A'', reserva_ej ''U2'' ''ISBN-B'']))
       ''ISBN-B''
     = Some (reserva_ej ''U2'' ''ISBN-B'')
   \<and> fst (verificar_y_asignar_reserva ''t''
            (sistema_ej [reserva_ej ''U1'' ''ISBN-A'', reserva_ej ''U2'' ''ISBN-B'']) ''ISBN-B'' True)
       = Inr \<lparr>libro_encontrado = True, posicion = 1, tiene_reservas = True,
              usuario_asignado = Some ''U1'',
              reserva_procesada = Some (reserva_ej ''U1'' ''ISBN-A''),
              prestamo_procesado = Some True\<rparr>
   \<and> elementos (cola_reservas (snd (verificar_y_asignar_reserva ''t''
            (sistema_ej [reserva_ej ''U1'' ''ISBN-A'', reserva_ej ''U2'' ''ISBN-B'']) ''ISBN-B'' True)))
       = [reserva_ej ''U2'' ''ISBN-B'']
   \<and> obtener_historial_usuario (snd (verificar_y_asignar_reserva ''t''
            (sistema_ej [reserva_ej ''U1'' ''ISBN-A'', reserva_ej ''U2'' ''ISBN-B'']) ''ISBN-B'' True))
        ''U1''
       = [\<lparr>p_isbn = ''ISBN-B'', p_fecha = ''t''\<rparr>]"
  by (simp add: ej_defs op_defs)

end
